theory Spec2Isabelle
  imports Main
begin

section \<open>The process-wide state touched by stdsage.c\<close>

text \<open>
  The file \<^verbatim>\<open>c_lib/src/stdsage.c\<close> holds one global variable and four functions. All of
  them act on state that lives for the whole process, so the model threads one record
  through every function and returns it updated.

  A \<^verbatim>\<open>PyObject*\<close> is either the null pointer or the address of an object on the
  Python heap. The only objects this file creates are tuples.
\<close>

datatype pyptr = NULL | Ptr nat

datatype pyobj = PyTuple "pyptr list"

text \<open>
  The Python heap: the objects allocated so far (an address is an index into the list),
  and whether the runtime's allocator is out of memory, in which case it refuses the
  next request.
\<close>

record pyheap =
  objects :: "pyobj list"
  out_of_memory :: bool

text \<open>
  A \<^verbatim>\<open>const char*\<close> is the null pointer (\<open>None\<close>) or a reference to a NUL-terminated
  string (\<open>Some r\<close>). This file never looks at what the pointer refers to, so the model
  leaves the kind of reference open, as the type variable \<open>'a\<close>: read at \<open>string\<close>, a
  pointer is identified with the message it refers to; read at \<open>nat\<close>, it is an address
  in memory, and two pointers are the same only if their addresses are. A \<^verbatim>\<open>void*\<close>
  is the null pointer or an address.
\<close>

type_synonym 'a char_ptr = "'a option"

type_synonym void_ptr = "nat option"

text \<open>
  The functions whose address can be handed to \<^verbatim>\<open>setup_NTL_error_callback\<close>. This file
  passes the address of its own \<^verbatim>\<open>global_NTL_error_callback\<close>.
\<close>

datatype fun_ptr = Addr_global_NTL_error_callback | Addr_other nat

text \<open>
  Every call that leaves this file is recorded, with its arguments, in the order in which
  it is made.
\<close>

datatype 'a event =
    Call_PyTuple_New nat
  | Call_set_sage_signal_handler_message "'a char_ptr"
  | Call_abort
  | Call_setup_sage_signal_handler
  | Call_setup_NTL_error_callback fun_ptr void_ptr

record 'a csage =
  global_empty_tuple :: pyptr
  init_global_empty_tuple_called :: bool
  py_heap :: pyheap
  sage_signal_handler_message :: "'a char_ptr"
  sage_signal_handler_installed :: bool
  NTL_error_callback :: "(fun_ptr \<times> void_ptr) option"
  calls :: "'a event list"

text \<open>
  A C function of type \<^verbatim>\<open>void f(...)\<close> either returns to its caller or ends in
  \<^verbatim>\<open>abort()\<close>. In both cases the state it leaves behind is kept: the interrupt
  machinery that catches the abort reads the message slot afterwards.
\<close>

datatype control = Returned | Aborted

type_synonym 'a command = "'a csage \<Rightarrow> control \<times> 'a csage"

text \<open>Statement sequencing \<^verbatim>\<open>f; g\<close>: \<open>g\<close> runs only if \<open>f\<close> returned.\<close>

definition andthen :: "'a command \<Rightarrow> 'a command \<Rightarrow> 'a command" where
  "andthen f g s = (case f s of (Returned, s') \<Rightarrow> g s' | (Aborted, s') \<Rightarrow> (Aborted, s'))"

definition log_call :: "'a event \<Rightarrow> 'a csage \<Rightarrow> 'a csage" where
  "log_call e s = s\<lparr>calls := calls s @ [e]\<rparr>"

text \<open>
  The state of a process in which nothing of this file has run yet: C zero-initialises
  the global pointer. Memory is available.
\<close>

definition process_start :: "'a csage" where
  "process_start =
     \<lparr>global_empty_tuple = NULL,
      init_global_empty_tuple_called = False,
      py_heap = \<lparr>objects = [], out_of_memory = False\<rparr>,
      sage_signal_handler_message = None,
      sage_signal_handler_installed = False,
      NTL_error_callback = None,
      calls = []\<rparr>"

text \<open>The same process with its memory used up before anything of this file runs.\<close>

definition process_start_out_of_memory :: "'a csage" where
  "process_start_out_of_memory =
     process_start\<lparr>py_heap := \<lparr>objects = [], out_of_memory = True\<rparr>\<rparr>"

section \<open>What stdsage.c calls\<close>

text \<open>
  \<^verbatim>\<open>PyTuple_New\<close> belongs to the CPython C API: it returns a tuple of the given size, or
  the null pointer when it fails. Here it fails exactly when the heap is out of memory
  and leaves the heap as it is; otherwise it stores a new tuple with \<open>n\<close> empty item
  slots and returns its address. (CPython may hand out one shared object for size 0
  instead of a new one; a new object is the stricter reading, and nothing below depends
  on the address being new.)
\<close>

definition PyTuple_New :: "nat \<Rightarrow> pyheap \<Rightarrow> pyptr \<times> pyheap" where
  "PyTuple_New n h =
     (if out_of_memory h then (NULL, h)
      else (Ptr (length (objects h)),
            h\<lparr>objects := objects h @ [PyTuple (replicate n NULL)]\<rparr>))"

text \<open>Reading a pointer: the object it refers to, if any.\<close>

definition deref :: "pyheap \<Rightarrow> pyptr \<Rightarrow> pyobj option" where
  "deref h p =
     (case p of
        NULL \<Rightarrow> None
      | Ptr a \<Rightarrow> (if a < length (objects h) then Some (objects h ! a) else None))"

definition PyTuple_Size :: "pyobj \<Rightarrow> nat" where
  "PyTuple_Size ob = (case ob of PyTuple items \<Rightarrow> length items)"

text \<open>\<^verbatim>\<open>abort()\<close> of the C library: it does not return.\<close>

definition abort :: "'a command" where
  "abort s = (Aborted, log_call Call_abort s)"

text \<open>
  Modelled from the spec: the macro \<^verbatim>\<open>_CALLED_ONLY_ONCE\<close> is defined in
  \<^verbatim>\<open>stdsage.h\<close>, which is not among the sources. The spec (4.1, glossary) describes it
  as a check that lets the enclosing initialisation run at most once per process; a
  second invocation "must fail loudly (abort/assert) rather than silently re-running".
  The flag belongs to the one function that uses the macro. Both readings of the loud
  failure end in \<^verbatim>\<open>abort()\<close> (a failed \<^verbatim>\<open>assert\<close> calls it), so the guard fails through
  \<open>abort\<close>.
\<close>

definition CALLED_ONLY_ONCE :: "'a command" where
  "CALLED_ONLY_ONCE s =
     (if init_global_empty_tuple_called s then abort s
      else (Returned, s\<lparr>init_global_empty_tuple_called := True\<rparr>))"

text \<open>
  Modelled from the spec: \<^verbatim>\<open>set_sage_signal_handler_message\<close> is declared in
  \<^verbatim>\<open>interrupt.h\<close> and defined outside the sources. The spec (3, 6): it "stores a string
  for later retrieval by the recovery mechanism" in a process-wide slot "holding the
  most recent error string". The spec calls a store made before the handler is set up
  undefined; the slot has static storage in the model, so the store is defined in every
  state.
\<close>

definition set_sage_signal_handler_message :: "'a char_ptr \<Rightarrow> 'a command" where
  "set_sage_signal_handler_message s st =
     (Returned, (log_call (Call_set_sage_signal_handler_message s) st)
        \<lparr>sage_signal_handler_message := s\<rparr>)"

text \<open>
  Modelled from the spec: \<^verbatim>\<open>setup_sage_signal_handler\<close> is declared in
  \<^verbatim>\<open>interrupt.h\<close> and defined outside the sources. The spec (6): it "installs host
  recovery mechanism".
\<close>

definition setup_sage_signal_handler :: "'a command" where
  "setup_sage_signal_handler st =
     (Returned, (log_call Call_setup_sage_signal_handler st)
        \<lparr>sage_signal_handler_installed := True\<rparr>)"

text \<open>
  Modelled from the spec: \<^verbatim>\<open>setup_NTL_error_callback\<close> is defined outside the sources.
  The spec (6): it "registers 4.4 as the library's fatal-error handler", that is, it
  records the callback and the context it is given.
\<close>

definition setup_NTL_error_callback :: "fun_ptr \<Rightarrow> void_ptr \<Rightarrow> 'a command" where
  "setup_NTL_error_callback function context st =
     (Returned, (log_call (Call_setup_NTL_error_callback function context) st)
        \<lparr>NTL_error_callback := Some (function, context)\<rparr>)"

section \<open>The functions of stdsage.c\<close>

text \<open>
  \<^verbatim>\<open>
  void init_global_empty_tuple(void) {
    _CALLED_ONLY_ONCE;
    global_empty_tuple = PyTuple_New(0);
  }
  \<close>
\<close>

definition init_global_empty_tuple :: "'a command" where
  "init_global_empty_tuple =
     andthen CALLED_ONLY_ONCE
       (\<lambda>st. case PyTuple_New 0 (py_heap st) of
          (p, h) \<Rightarrow>
            (Returned, (log_call (Call_PyTuple_New 0) st)
               \<lparr>py_heap := h, global_empty_tuple := p\<rparr>))"

text \<open>
  \<^verbatim>\<open>
  void global_NTL_error_callback(const char* s, void* context)
  {
      set_sage_signal_handler_message(s);
      abort();
  }
  \<close>
\<close>

definition global_NTL_error_callback :: "'a char_ptr \<Rightarrow> void_ptr \<Rightarrow> 'a command" where
  "global_NTL_error_callback s context =
     andthen (set_sage_signal_handler_message s) abort"

text \<open>
  \<^verbatim>\<open>
  void init_csage() {
      init_global_empty_tuple();
      setup_sage_signal_handler();
      setup_NTL_error_callback(global_NTL_error_callback, NULL);
  }
  \<close>
\<close>

definition init_csage :: "'a command" where
  "init_csage =
     andthen init_global_empty_tuple
       (andthen setup_sage_signal_handler
          (setup_NTL_error_callback Addr_global_NTL_error_callback None))"

text \<open>
  \<^verbatim>\<open>
  void init_csage_module() {
  #if defined(__CYGWIN32__)
      init_csage();
  #endif
  }
  \<close>
  The preprocessor symbol is a parameter of the build, so it is a parameter here.
\<close>

definition init_csage_module :: "bool \<Rightarrow> 'a command" where
  "init_csage_module CYGWIN32 = (if CYGWIN32 then init_csage else (\<lambda>st. (Returned, st)))"

section \<open>Running several calls in one process\<close>

text \<open>
  A harness that intercepts termination: the state a call leaves behind, whether the
  call returned or aborted, is the state the next call starts from.
\<close>

definition intercepted :: "'a command \<Rightarrow> 'a csage \<Rightarrow> 'a csage" where
  "intercepted f s = snd (f s)"

text \<open>The entry points of this file, as a caller can invoke them.\<close>

datatype 'a entry =
    Run_init_global_empty_tuple
  | Run_init_csage
  | Run_init_csage_module
  | Run_global_NTL_error_callback "'a char_ptr" void_ptr

fun run_entry :: "bool \<Rightarrow> 'a entry \<Rightarrow> 'a command" where
  "run_entry CYGWIN32 Run_init_global_empty_tuple = init_global_empty_tuple"
| "run_entry CYGWIN32 Run_init_csage = init_csage"
| "run_entry CYGWIN32 Run_init_csage_module = init_csage_module CYGWIN32"
| "run_entry CYGWIN32 (Run_global_NTL_error_callback s context) =
     global_NTL_error_callback s context"

fun run_entries :: "bool \<Rightarrow> 'a entry list \<Rightarrow> 'a csage \<Rightarrow> 'a csage" where
  "run_entries CYGWIN32 [] s = s"
| "run_entries CYGWIN32 (e # es) s = run_entries CYGWIN32 es (intercepted (run_entry CYGWIN32 e) s)"

text \<open>The calls that leave this file while \<open>f\<close> runs from \<open>st\<close>, in order.\<close>

definition new_calls :: "'a command \<Rightarrow> 'a csage \<Rightarrow> 'a event list" where
  "new_calls f st = drop (length (calls st)) (calls (snd (f st)))"

text \<open>
  What the rest of the process can observe of this file's state: the singleton and the
  heap it points into, the message slot, and the two registrations. The guard's flag is
  local to \<^verbatim>\<open>init_global_empty_tuple\<close>, and the record of calls is bookkeeping of the
  model.
\<close>

definition observable ::
  "'a csage \<Rightarrow> pyptr \<times> pyheap \<times> 'a char_ptr \<times> bool \<times> (fun_ptr \<times> void_ptr) option" where
  "observable s =
     (global_empty_tuple s, py_heap s, sage_signal_handler_message s,
      sage_signal_handler_installed s, NTL_error_callback s)"

text \<open>How often the tuple constructor has been called so far.\<close>

definition tuple_constructions :: "'a csage \<Rightarrow> nat" where
  "tuple_constructions s = length (filter (\<lambda>e. e = Call_PyTuple_New 0) (calls s))"

section \<open>Basic facts\<close>

lemma global_NTL_error_callback_result:
  "global_NTL_error_callback s context st =
     (Aborted, st\<lparr>sage_signal_handler_message := s,
                  calls := calls st @ [Call_set_sage_signal_handler_message s, Call_abort]\<rparr>)"
  by (simp add: global_NTL_error_callback_def andthen_def set_sage_signal_handler_message_def
      abort_def log_call_def)

lemma init_global_empty_tuple_again:
  "init_global_empty_tuple_called st \<Longrightarrow> init_global_empty_tuple st = abort st"
  by (simp add: init_global_empty_tuple_def andthen_def CALLED_ONLY_ONCE_def abort_def)

lemma init_global_empty_tuple_first:
  "\<not> init_global_empty_tuple_called st \<Longrightarrow>
   init_global_empty_tuple st =
     (Returned, st\<lparr>init_global_empty_tuple_called := True,
                   calls := calls st @ [Call_PyTuple_New 0],
                   py_heap := snd (PyTuple_New 0 (py_heap st)),
                   global_empty_tuple := fst (PyTuple_New 0 (py_heap st))\<rparr>)"
  by (simp add: init_global_empty_tuple_def andthen_def CALLED_ONLY_ONCE_def log_call_def
      case_prod_beta)

lemma init_csage_again:
  "init_global_empty_tuple_called st \<Longrightarrow> init_csage st = abort st"
  by (simp add: init_csage_def andthen_def init_global_empty_tuple_again abort_def)

lemma init_csage_first:
  "\<not> init_global_empty_tuple_called st \<Longrightarrow>
   init_csage st =
     (Returned, st\<lparr>init_global_empty_tuple_called := True,
                   calls := calls st @ [Call_PyTuple_New 0, Call_setup_sage_signal_handler,
                     Call_setup_NTL_error_callback Addr_global_NTL_error_callback None],
                   py_heap := snd (PyTuple_New 0 (py_heap st)),
                   global_empty_tuple := fst (PyTuple_New 0 (py_heap st)),
                   sage_signal_handler_installed := True,
                   NTL_error_callback := Some (Addr_global_NTL_error_callback, None)\<rparr>)"
  by (simp add: init_csage_def andthen_def init_global_empty_tuple_first
      setup_sage_signal_handler_def setup_NTL_error_callback_def log_call_def)

text \<open>
  Once the guard's flag is set, no entry point of this file touches the singleton, the
  heap or the flag again, and none constructs another tuple.
\<close>

lemma run_entry_after_init:
  assumes "init_global_empty_tuple_called s"
  shows "init_global_empty_tuple_called (intercepted (run_entry cyg e) s)
    \<and> global_empty_tuple (intercepted (run_entry cyg e) s) = global_empty_tuple s
    \<and> py_heap (intercepted (run_entry cyg e) s) = py_heap s
    \<and> tuple_constructions (intercepted (run_entry cyg e) s) = tuple_constructions s"
  using assms
  by (cases e)
    (simp_all add: intercepted_def init_global_empty_tuple_again init_csage_again
      init_csage_module_def global_NTL_error_callback_result tuple_constructions_def
      abort_def log_call_def)

lemma run_entries_after_init:
  "init_global_empty_tuple_called s \<Longrightarrow>
   init_global_empty_tuple_called (run_entries cyg es s)
    \<and> global_empty_tuple (run_entries cyg es s) = global_empty_tuple s
    \<and> py_heap (run_entries cyg es s) = py_heap s
    \<and> tuple_constructions (run_entries cyg es s) = tuple_constructions s"
proof (induction es arbitrary: s)
  case Nil
  then show ?case by simp
next
  case (Cons e es)
  from run_entry_after_init [OF Cons.prems, of cyg e]
  have step: "init_global_empty_tuple_called (intercepted (run_entry cyg e) s)"
    and keep: "global_empty_tuple (intercepted (run_entry cyg e) s) = global_empty_tuple s"
      "py_heap (intercepted (run_entry cyg e) s) = py_heap s"
      "tuple_constructions (intercepted (run_entry cyg e) s) = tuple_constructions s"
    by simp_all
  from Cons.IH [OF step] keep show ?case by simp
qed

lemma init_csage_returned_fresh:
  "init_csage st = (Returned, st') \<Longrightarrow> \<not> init_global_empty_tuple_called st"
  using init_csage_again [of st] by (auto simp: abort_def)

lemma process_start_fresh:
  "\<not> init_global_empty_tuple_called process_start"
  "py_heap process_start = \<lparr>objects = [], out_of_memory = False\<rparr>"
  "calls process_start = []"
  by (simp_all add: process_start_def)

lemma process_start_out_of_memory_fresh:
  "\<not> init_global_empty_tuple_called process_start_out_of_memory"
  "py_heap process_start_out_of_memory = \<lparr>objects = [], out_of_memory = True\<rparr>"
  by (simp_all add: process_start_out_of_memory_def process_start_def)







section \<open>The claims\<close>


text \<open>
  C1. Called with a message \<open>m\<close>, the bridge \<^verbatim>\<open>global_NTL_error_callback\<close> ends in an
  abort, and the state it leaves has exactly \<open>m\<close> in the signal-handler message slot,
  whatever the slot held before; the abort is the last call it makes. When termination
  is intercepted and the bridge runs twice, the slot holds the second message only; in
  particular "first" followed by "second" leaves "second".
\<close>

theorem global_NTL_error_callback_stores_message:
  "fst (global_NTL_error_callback (Some m) context st) = Aborted
   \<and> sage_signal_handler_message (intercepted (global_NTL_error_callback (Some m) context) st)
       = Some m
   \<and> last (calls (intercepted (global_NTL_error_callback (Some m) context) st)) = Call_abort
   \<and> sage_signal_handler_message
        (intercepted (global_NTL_error_callback (Some m2) context2)
          (intercepted (global_NTL_error_callback (Some m1) context1) st)) = Some m2
   \<and> sage_signal_handler_message
        (run_entries CYGWIN32
          [Run_global_NTL_error_callback (Some ''first'') context1,
           Run_global_NTL_error_callback (Some ''second'') context2] st) = Some ''second''"
  by (simp add: global_NTL_error_callback_result intercepted_def)


text \<open>
  C3. A second call of \<^verbatim>\<open>init_global_empty_tuple()\<close> in the same process fails at the
  once-only guard: it is nothing but an \<^verbatim>\<open>abort()\<close> on the state the first call left, so
  it does not return, and what the process can observe (the singleton and the heap
  among it) is unchanged. The first call in a fresh process returns, and after the
  second one the tuple has still been constructed once.
\<close>

theorem init_global_empty_tuple_second_call_fails:
  "init_global_empty_tuple (intercepted init_global_empty_tuple st)
     = abort (intercepted init_global_empty_tuple st)
   \<and> fst (init_global_empty_tuple (intercepted init_global_empty_tuple st)) = Aborted
   \<and> observable (intercepted init_global_empty_tuple (intercepted init_global_empty_tuple st))
       = observable (intercepted init_global_empty_tuple st)
   \<and> fst (init_global_empty_tuple process_start) = Returned
   \<and> tuple_constructions
        (intercepted init_global_empty_tuple (intercepted init_global_empty_tuple process_start))
       = 1"
proof -
  let ?s1 = "intercepted init_global_empty_tuple st"
  have called: "init_global_empty_tuple_called ?s1"
    by (cases "init_global_empty_tuple_called st")
      (simp_all add: intercepted_def init_global_empty_tuple_again
        init_global_empty_tuple_first abort_def log_call_def)
  have second: "init_global_empty_tuple ?s1 = abort ?s1"
    using called by (rule init_global_empty_tuple_again)
  have ctl: "fst (init_global_empty_tuple ?s1) = Aborted"
    by (simp add: second abort_def)
  have obs: "observable (intercepted init_global_empty_tuple ?s1) = observable ?s1"
    by (simp add: intercepted_def [of init_global_empty_tuple ?s1] second abort_def
        log_call_def observable_def)
  have first: "fst (init_global_empty_tuple process_start) = Returned"
    by (simp add: init_global_empty_tuple_first process_start_fresh)
  have cnt: "tuple_constructions
      (intercepted init_global_empty_tuple (intercepted init_global_empty_tuple process_start)) = 1"
    by (simp add: intercepted_def init_global_empty_tuple_again init_global_empty_tuple_first
        process_start_fresh tuple_constructions_def abort_def log_call_def)
  from second ctl obs first cnt show ?thesis by simp
qed

text \<open>
  C4. When \<^verbatim>\<open>init_csage()\<close> has returned, \<^verbatim>\<open>global_empty_tuple\<close> holds what its call
  of \<^verbatim>\<open>PyTuple_New(0)\<close> returned; the result is stored unchecked. If the allocation
  succeeded, the pointer is not null and refers to a tuple of length zero; if it failed,
  the pointer is null. In both cases the tuple constructor has been called once by this
  call, and whatever entry points of this file run afterwards, on either platform and
  in any order and number, the pointer stays the same, the object it refers to stays the
  same, and the constructor is not called again.
\<close>

theorem global_empty_tuple_after_init_csage:
  assumes "init_csage st = (Returned, st')"
  shows "global_empty_tuple st' = fst (PyTuple_New 0 (py_heap st))
    \<and> (if fst (PyTuple_New 0 (py_heap st)) = NULL then global_empty_tuple st' = NULL
        else global_empty_tuple st' \<noteq> NULL
          \<and> map_option PyTuple_Size (deref (py_heap st') (global_empty_tuple st')) = Some 0)
    \<and> tuple_constructions st' = Suc (tuple_constructions st)
    \<and> global_empty_tuple (run_entries CYGWIN32 es st') = global_empty_tuple st'
    \<and> deref (py_heap (run_entries CYGWIN32 es st'))
          (global_empty_tuple (run_entries CYGWIN32 es st'))
        = deref (py_heap st') (global_empty_tuple st')
    \<and> tuple_constructions (run_entries CYGWIN32 es st') = tuple_constructions st'"
proof -
  from assms have fresh: "\<not> init_global_empty_tuple_called st"
    by (rule init_csage_returned_fresh)
  from init_csage_first [OF fresh] assms
  have st': "st' = st\<lparr>init_global_empty_tuple_called := True,
                   calls := calls st @ [Call_PyTuple_New 0, Call_setup_sage_signal_handler,
                     Call_setup_NTL_error_callback Addr_global_NTL_error_callback None],
                   py_heap := snd (PyTuple_New 0 (py_heap st)),
                   global_empty_tuple := fst (PyTuple_New 0 (py_heap st)),
                   sage_signal_handler_installed := True,
                   NTL_error_callback := Some (Addr_global_NTL_error_callback, None)\<rparr>"
    by simp
  have ptr: "global_empty_tuple st' = fst (PyTuple_New 0 (py_heap st))"
    and heap: "py_heap st' = snd (PyTuple_New 0 (py_heap st))"
    by (simp_all add: st')
  have result: "if fst (PyTuple_New 0 (py_heap st)) = NULL then global_empty_tuple st' = NULL
        else global_empty_tuple st' \<noteq> NULL
          \<and> map_option PyTuple_Size (deref (py_heap st') (global_empty_tuple st')) = Some 0"
  proof (cases "out_of_memory (py_heap st)")
    case True
    then show ?thesis by (simp add: ptr PyTuple_New_def)
  next
    case False
    then have made: "fst (PyTuple_New 0 (py_heap st)) \<noteq> NULL"
      by (simp add: PyTuple_New_def)
    with ptr have nonnull: "global_empty_tuple st' \<noteq> NULL"
      by simp
    have size0: "map_option PyTuple_Size (deref (py_heap st') (global_empty_tuple st')) = Some 0"
      using False by (simp add: ptr heap PyTuple_New_def deref_def PyTuple_Size_def)
    from made nonnull size0 show ?thesis by simp
  qed
  have once: "tuple_constructions st' = Suc (tuple_constructions st)"
    by (simp add: st' tuple_constructions_def)
  have called: "init_global_empty_tuple_called st'"
    by (simp add: st')
  from run_entries_after_init [OF called, of CYGWIN32 es]
  have later: "global_empty_tuple (run_entries CYGWIN32 es st') = global_empty_tuple st'"
    "py_heap (run_entries CYGWIN32 es st') = py_heap st'"
    "tuple_constructions (run_entries CYGWIN32 es st') = tuple_constructions st'"
    by simp_all
  from ptr result once later show ?thesis by simp
qed

text \<open>
  The same at a fresh process with memory available: \<^verbatim>\<open>init_csage()\<close> returns there,
  the singleton is the empty tuple at address 0, and a module initialisation on Cygwin,
  an NTL error, a repeated \<^verbatim>\<open>init_global_empty_tuple()\<close> and a repeated \<^verbatim>\<open>init_csage()\<close>
  afterwards leave it in place.
\<close>

theorem global_empty_tuple_after_init_csage_witness:
  "init_csage (process_start :: string csage) = (Returned, intercepted init_csage (process_start :: string csage))
   \<and> global_empty_tuple (intercepted init_csage (process_start :: string csage)) = Ptr 0
   \<and> deref (py_heap (intercepted init_csage (process_start :: string csage))) (Ptr 0) = Some (PyTuple [])
   \<and> global_empty_tuple
        (run_entries True
          [Run_init_csage_module, Run_global_NTL_error_callback (Some ''overflow'') None,
           Run_init_global_empty_tuple, Run_init_csage]
          (intercepted init_csage (process_start :: string csage))) \<noteq> NULL
   \<and> tuple_constructions
        (run_entries True
          [Run_init_csage_module, Run_global_NTL_error_callback (Some ''overflow'') None,
           Run_init_global_empty_tuple, Run_init_csage]
          (intercepted init_csage (process_start :: string csage))) = 1"
proof -
  note fresh = process_start_fresh(1)
  note start = process_start_fresh(2,3)
  have run: "init_csage (process_start :: string csage) = (Returned, intercepted init_csage (process_start :: string csage))"
    by (simp add: init_csage_first [OF fresh] intercepted_def)
  have ptr: "global_empty_tuple (intercepted init_csage (process_start :: string csage)) = Ptr 0"
    by (simp add: init_csage_first [OF fresh] intercepted_def start PyTuple_New_def)
  have obj: "deref (py_heap (intercepted init_csage (process_start :: string csage))) (Ptr 0) = Some (PyTuple [])"
    by (simp add: init_csage_first [OF fresh] intercepted_def start PyTuple_New_def deref_def)
  have cnt: "tuple_constructions (intercepted init_csage (process_start :: string csage)) = 1"
    by (simp add: init_csage_first [OF fresh] intercepted_def start tuple_constructions_def)
  let ?later = "[Run_init_csage_module, Run_global_NTL_error_callback (Some ''overflow'') None,
        Run_init_global_empty_tuple, Run_init_csage]"
  note after = global_empty_tuple_after_init_csage [OF run, of True ?later]
  from after
  have same: "global_empty_tuple (run_entries True ?later (intercepted init_csage (process_start :: string csage)))
      = global_empty_tuple (intercepted init_csage (process_start :: string csage))"
    by (elim conjE)
  from after
  have count: "tuple_constructions (run_entries True ?later (intercepted init_csage (process_start :: string csage)))
      = tuple_constructions (intercepted init_csage (process_start :: string csage))"
    by (elim conjE)
  have nonnull: "global_empty_tuple (run_entries True ?later (intercepted init_csage (process_start :: string csage)))
      \<noteq> NULL"
    by (simp only: same ptr) simp
  have one: "tuple_constructions (run_entries True ?later (intercepted init_csage (process_start :: string csage)))
      = 1"
    by (simp only: count cnt)
  from run ptr obj nonnull one show ?thesis by blast
qed

text \<open>
  The claim as written promises a pointer that is not null after every completed
  \<^verbatim>\<open>init_csage()\<close>. In a process that is out of memory the allocation fails,
  \<^verbatim>\<open>init_csage()\<close> still returns, and \<^verbatim>\<open>global_empty_tuple\<close> is null.
\<close>

theorem global_empty_tuple_null_when_out_of_memory:
  "init_csage (process_start_out_of_memory :: string csage)
     = (Returned, intercepted init_csage (process_start_out_of_memory :: string csage))
   \<and> global_empty_tuple (intercepted init_csage (process_start_out_of_memory :: string csage)) = NULL"
proof -
  note fresh = process_start_out_of_memory_fresh(1)
  note start = process_start_out_of_memory_fresh(2)
  have run: "init_csage (process_start_out_of_memory :: string csage)
      = (Returned, intercepted init_csage (process_start_out_of_memory :: string csage))"
    by (simp add: init_csage_first [OF fresh] intercepted_def)
  have ptr: "global_empty_tuple (intercepted init_csage (process_start_out_of_memory :: string csage)) = NULL"
    by (simp add: init_csage_first [OF fresh] intercepted_def start PyTuple_New_def)
  from run ptr show ?thesis by simp
qed



text \<open>
  C6. Where \<^verbatim>\<open>__CYGWIN32__\<close> is not defined, \<^verbatim>\<open>init_csage_module()\<close> has an empty body:
  it returns and leaves the whole state as it found it, the singleton, the message slot,
  the registrations and the record of outgoing calls included, however often it is
  called.
\<close>

theorem init_csage_module_noop_elsewhere:
  "init_csage_module False st = (Returned, st)
   \<and> (intercepted (init_csage_module False) ^^ n) st = st"
proof -
  have once: "init_csage_module False s = (Returned, s)" for s :: "'b csage"
    by (simp add: init_csage_module_def)
  have many: "(intercepted (init_csage_module False) ^^ n) st = st"
    by (induction n) (simp_all add: intercepted_def once)
  from once many show ?thesis by simp
qed

text \<open>
  C7. \<^verbatim>\<open>global_NTL_error_callback\<close> never returns: every call ends in the abort, and
  whatever the caller has placed after the call does not run. The abort acts on the
  state in which the message is already stored: the call of
  \<^verbatim>\<open>set_sage_signal_handler_message\<close> comes first and \<^verbatim>\<open>abort()\<close> is the call after it.
\<close>

theorem global_NTL_error_callback_never_returns:
  "fst (global_NTL_error_callback s context st) = Aborted
   \<and> andthen (global_NTL_error_callback s context) rest st
       = global_NTL_error_callback s context st
   \<and> global_NTL_error_callback s context st
       = abort (intercepted (set_sage_signal_handler_message s) st)
   \<and> sage_signal_handler_message (intercepted (set_sage_signal_handler_message s) st) = s
   \<and> new_calls (global_NTL_error_callback s context) st
       = new_calls (set_sage_signal_handler_message s) st @ [Call_abort]"
  by (simp add: global_NTL_error_callback_result andthen_def intercepted_def new_calls_def
      set_sage_signal_handler_message_def abort_def log_call_def)

text \<open>
  C8. The context pointer of \<^verbatim>\<open>global_NTL_error_callback\<close> is never read: two calls
  with the same message and any two contexts (the null pointer among them) end the same
  way and leave the same state.
\<close>

theorem global_NTL_error_callback_ignores_context:
  "global_NTL_error_callback s context1 st = global_NTL_error_callback s context2 st
   \<and> global_NTL_error_callback s None st = global_NTL_error_callback s context1 st"
  by (simp add: global_NTL_error_callback_def)

text \<open>
  C9. In \<^verbatim>\<open>init_global_empty_tuple\<close> the guard stands before the allocation and the
  assignment. After a first call that returned, a second call finds the guard set and
  ends there: its only outgoing call is the guard's \<^verbatim>\<open>abort()\<close>, no tuple is
  constructed, and \<^verbatim>\<open>global_empty_tuple\<close> and the heap are still what the first call's
  \<^verbatim>\<open>PyTuple_New(0)\<close> produced.
\<close>

theorem guard_fires_before_allocation:
  assumes "init_global_empty_tuple st = (Returned, s1)"
  shows "fst (CALLED_ONLY_ONCE s1) = Aborted
    \<and> fst (init_global_empty_tuple s1) = Aborted
    \<and> new_calls init_global_empty_tuple s1 = [Call_abort]
    \<and> global_empty_tuple (intercepted init_global_empty_tuple s1) = global_empty_tuple s1
    \<and> global_empty_tuple s1 = fst (PyTuple_New 0 (py_heap st))
    \<and> py_heap (intercepted init_global_empty_tuple s1) = snd (PyTuple_New 0 (py_heap st))
    \<and> tuple_constructions (intercepted init_global_empty_tuple s1) = tuple_constructions s1"
proof -
  from assms init_global_empty_tuple_again [of st]
  have fresh: "\<not> init_global_empty_tuple_called st" by (auto simp: abort_def)
  from init_global_empty_tuple_first [OF fresh] assms
  have s1: "s1 = st\<lparr>init_global_empty_tuple_called := True,
                   calls := calls st @ [Call_PyTuple_New 0],
                   py_heap := snd (PyTuple_New 0 (py_heap st)),
                   global_empty_tuple := fst (PyTuple_New 0 (py_heap st))\<rparr>"
    by simp
  then have called: "init_global_empty_tuple_called s1" by simp
  have guard: "fst (CALLED_ONLY_ONCE s1) = Aborted"
    using called by (simp add: CALLED_ONLY_ONCE_def abort_def)
  have again: "init_global_empty_tuple s1 = abort s1"
    using called by (rule init_global_empty_tuple_again)
  have ptr: "global_empty_tuple s1 = fst (PyTuple_New 0 (py_heap st))"
    and heap: "py_heap s1 = snd (PyTuple_New 0 (py_heap st))"
    by (simp_all add: s1)
  from guard again ptr heap show ?thesis
    by (simp add: intercepted_def new_calls_def abort_def log_call_def tuple_constructions_def)
qed

text \<open>
  The same at a fresh process: the first call returns, the second aborts, and afterwards
  the singleton is still the tuple at address 0 on a heap of one object.
\<close>

theorem guard_fires_before_allocation_witness:
  "init_global_empty_tuple (process_start :: string csage)
     = (Returned, intercepted init_global_empty_tuple process_start)
   \<and> fst (init_global_empty_tuple
        (intercepted init_global_empty_tuple (process_start :: string csage))) = Aborted
   \<and> global_empty_tuple (intercepted init_global_empty_tuple
        (intercepted init_global_empty_tuple (process_start :: string csage))) = Ptr 0
   \<and> objects (py_heap (intercepted init_global_empty_tuple
        (intercepted init_global_empty_tuple (process_start :: string csage)))) = [PyTuple []]"
proof -
  let ?p = "process_start :: string csage"
  note fresh = process_start_fresh(1)
  note start = process_start_fresh(2)
  have run: "init_global_empty_tuple ?p = (Returned, intercepted init_global_empty_tuple ?p)"
    by (simp add: init_global_empty_tuple_first [OF fresh] intercepted_def)
  note second = guard_fires_before_allocation [OF run]
  from second
  have stopped: "fst (init_global_empty_tuple (intercepted init_global_empty_tuple ?p)) = Aborted"
    by (elim conjE)
  from second
  have same: "global_empty_tuple
        (intercepted init_global_empty_tuple (intercepted init_global_empty_tuple ?p))
      = global_empty_tuple (intercepted init_global_empty_tuple ?p)"
    by (elim conjE)
  from second
  have stored: "global_empty_tuple (intercepted init_global_empty_tuple ?p)
      = fst (PyTuple_New 0 (py_heap ?p))"
    by (elim conjE)
  from second
  have heap: "py_heap (intercepted init_global_empty_tuple (intercepted init_global_empty_tuple ?p))
      = snd (PyTuple_New 0 (py_heap ?p))"
    by (elim conjE)
  have ptr: "global_empty_tuple
        (intercepted init_global_empty_tuple (intercepted init_global_empty_tuple ?p)) = Ptr 0"
    by (simp add: same stored start PyTuple_New_def)
  have objs: "objects (py_heap
        (intercepted init_global_empty_tuple (intercepted init_global_empty_tuple ?p)))
      = [PyTuple []]"
    by (simp add: heap start PyTuple_New_def)
  from run stopped ptr objs show ?thesis by blast
qed

text \<open>
  C10. \<^verbatim>\<open>global_NTL_error_callback\<close> hands its first argument to
  \<^verbatim>\<open>set_sage_signal_handler_message\<close> as it received it, with no check and no copy of its
  own, and calls \<^verbatim>\<open>abort()\<close> next: the call is the sink run on the caller's state with
  that very argument, which returns, followed by the abort. The sink is invoked once,
  and the pointer it receives is the one the bridge was given and no other. This holds
  for every pointer: for the null pointer, and for a pointer read as an address \<open>a\<close>,
  where the sink receives the address \<open>a\<close> itself.
\<close>

theorem global_NTL_error_callback_forwards_argument:
  "fst (set_sage_signal_handler_message s st) = Returned
   \<and> global_NTL_error_callback s context st
       = abort (intercepted (set_sage_signal_handler_message s) st)
   \<and> new_calls (global_NTL_error_callback s context) st
       = [Call_set_sage_signal_handler_message s, Call_abort]
   \<and> (Call_set_sage_signal_handler_message s'
         \<in> set (new_calls (global_NTL_error_callback s context) st)) = (s' = s)
   \<and> global_NTL_error_callback None context st
       = abort (intercepted (set_sage_signal_handler_message None) st)
   \<and> new_calls (global_NTL_error_callback None context) st
       = [Call_set_sage_signal_handler_message None, Call_abort]
   \<and> global_NTL_error_callback (Some (a :: nat)) context mem
       = abort (intercepted (set_sage_signal_handler_message (Some a)) mem)
   \<and> (Call_set_sage_signal_handler_message (Some b)
         \<in> set (new_calls (global_NTL_error_callback (Some a) context) mem)) = (b = a)"
  by (simp add: global_NTL_error_callback_result new_calls_def intercepted_def
      set_sage_signal_handler_message_def abort_def log_call_def)

end
